theory Spec2Isabelle
  imports Main
begin

section \<open>The realtime session controller of ConsolePage.tsx\<close>

text \<open>
  The controller is the React component \<^verbatim>\<open>ConsolePage\<close>. Its state variables
  (\<^verbatim>\<open>useState\<close>) are the fields of the record \<open>world\<close>; the calls it makes on its
  collaborators (the recorder, the stream player, the realtime client, the console)
  are appended, in program order, to the field \<open>calls\<close>. What a collaborator answers
  (a value, or an exception thrown by an awaited call) is not decided by the
  component: it is read from a record \<open>env\<close> that is an argument of every operation.
  An operation returns the exception that left it, if any, together with the world
  it leaves behind: the state updates and calls made before a throw stay made.
\<close>

subsection \<open>Data\<close>

datatype error =
  TypeError            \<comment> \<open>raised by the JavaScript runtime on a property write to undefined\<close>
| Thrown string        \<comment> \<open>an exception thrown by a collaborator\<close>

datatype source = Client | Server

text \<open>
  \<^verbatim>\<open>interface RealtimeEvent { time; source; count?: number; event: {[key: string]: any} }\<close>.
  The payload \<open>event\<close> is a dictionary; \<^verbatim>\<open>event.type\<close> is its entry under the key
  \<^verbatim>\<open>type\<close>, undefined (\<open>None\<close>) when the key is absent.
\<close>

record RealtimeEvent =
  time :: string
  source :: source
  count :: "nat option"
  event :: "(string \<times> string) list"

definition event_type :: "RealtimeEvent \<Rightarrow> string option" where
  "event_type e = map_of (event e) ''type''"

text \<open>The fields of a conversation item that the component reads or writes.\<close>

datatype wav_file = WavFile (url: string)

record ItemType =
  item_id :: string
  status :: string
  formatted_audio :: "int list option"
  formatted_file :: "wav_file option"

record Delta =
  delta_audio :: "int list option"

text \<open>
  The answer of \<^verbatim>\<open>wavStreamPlayer.interrupt()\<close>: undefined (\<open>None\<close>), or an object
  whose \<^verbatim>\<open>trackId\<close> may be null.
\<close>

record TrackSampleOffset =
  trackId :: "string option"
  offset :: nat

datatype turn_detection = NoTurnDetection | ServerVad

datatype content =
  SeedInstruction string "string option" string
    \<comment> \<open>the template of \<^verbatim>\<open>connectConversation\<close>: persona, company (when its trim is
        not empty), trimmed custom question\<close>

datatype "call" =
  RecorderBegin
| RecorderRecord
| RecorderPause
| RecorderEnd
| PlayerConnect
| PlayerInterrupt
| PlayerAdd16BitPCM "int list" string
| ClientConnect
| ClientDisconnect
| SendUserMessageContent content
| AppendInputAudio "int list"
| CreateResponse
| CancelResponse string nat
| DeleteItem string
| UpdateSession turn_detection
| WavDecode "int list" nat nat
| ConsoleLog RealtimeEvent
| ConsoleError string

record feedback_scores =
  problemSolving :: nat
  communication :: nat
  codeQuality :: nat
  timeManagement :: nat

record world =
  startTime :: string
  isConnected :: bool
  realtimeEvents :: "RealtimeEvent list"
  items :: "ItemType list"
  memoryKv :: "string \<rightharpoonup> string"
  code :: string
  canPushToTalk :: bool
  isRecording :: bool
  feedback :: feedback_scores
  calls :: "call list"

definition do_call :: "call \<Rightarrow> world \<Rightarrow> world" where
  "do_call c w = w\<lparr>calls := calls w @ [c]\<rparr>"

subsection \<open>The event log (handler of \<^verbatim>\<open>realtime.event\<close>)\<close>

text \<open>
  The updater passed to \<^verbatim>\<open>setRealtimeEvents\<close>:
  \<^verbatim>\<open>
  const lastEvent = realtimeEvents[realtimeEvents.length - 1];
  if (lastEvent?.event.type === realtimeEvent.event.type) {
    lastEvent.count = (lastEvent.count || 0) + 1;
    return realtimeEvents.slice(0, -1).concat(lastEvent);
  } else {
    return realtimeEvents.concat(realtimeEvent);
  }
  \<close>
  On an empty log \<^verbatim>\<open>lastEvent\<close> is undefined and so is \<^verbatim>\<open>lastEvent?.event.type\<close>;
  if the new event has no type either, the comparison holds and the write to
  \<^verbatim>\<open>lastEvent.count\<close> throws.
\<close>

definition count_or_0 :: "RealtimeEvent \<Rightarrow> nat" where
  "count_or_0 e = (case count e of None \<Rightarrow> 0 | Some n \<Rightarrow> n)"

definition aggregate :: "RealtimeEvent list \<Rightarrow> RealtimeEvent \<Rightarrow> error + RealtimeEvent list" where
  "aggregate log ev =
     (let lastType = (if log = [] then None else event_type (last log)) in
      if lastType = event_type ev then
        (if log = [] then Inl TypeError
         else Inr (butlast log @ [(last log)\<lparr>count := Some (count_or_0 (last log) + 1)\<rparr>]))
      else Inr (log @ [ev]))"

definition on_realtime_event :: "RealtimeEvent \<Rightarrow> world \<Rightarrow> error option \<times> world" where
  "on_realtime_event ev w =
     (let w1 = do_call (ConsoleLog ev) w in
      case aggregate (realtimeEvents w1) ev of
        Inl e \<Rightarrow> (Some e, w1)
      | Inr log \<Rightarrow> (None, w1\<lparr>realtimeEvents := log\<rparr>))"

subsection \<open>What the collaborators answer\<close>

text \<open>
  One record holds, for the run of one operation, the answer of every collaborator
  method the operation may call: the values of the queries, and for each awaited
  call the exception it throws, if any. \<open>frames\<close> are the chunks (\<^verbatim>\<open>data.mono\<close>)
  that the recorder hands to the callback given to \<^verbatim>\<open>record\<close>.
\<close>

record env =
  now :: string
  getItems :: "ItemType list"
  getTurnDetectionType :: "string option"
  getStatus :: string
  client_isConnected :: bool
  begin_throws :: "error option"
  player_connect_throws :: "error option"
  client_connect_throws :: "error option"
  record_throws :: "error option"
  pause_throws :: "error option"
  end_throws :: "error option"
  interrupt_result :: "TrackSampleOffset option"
  cancelResponse_throws :: "error option"
  decode_result :: "error + wav_file"
  frames :: "int list list"

subsection \<open>Values captured by the memoised callbacks\<close>

text \<open>
  \<^verbatim>\<open>connectConversation\<close> and \<^verbatim>\<open>deleteConversationItem\<close> are created with
  \<^verbatim>\<open>useCallback(..., [])\<close>. With an empty dependency list React keeps the function
  object of the first render, so the state variables these functions read are the
  constants of the first render: the initial values given to \<^verbatim>\<open>useState\<close>.
\<close>

record captured =
  cap_isConnected :: bool
  cap_company :: string
  cap_persona :: string
  cap_customQuestion :: string

definition first_render :: captured where
  "first_render =
     \<lparr>cap_isConnected = False, cap_company = [], cap_persona = ''Friendly'',
      cap_customQuestion = []\<rparr>"

subsection \<open>Capture\<close>

text \<open>\<^verbatim>\<open>await wavRecorder.record((data) => client.appendInputAudio(data.mono))\<close>\<close>

definition record_audio :: "env \<Rightarrow> world \<Rightarrow> error option \<times> world" where
  "record_audio en w =
     (let w1 = do_call RecorderRecord w in
      case record_throws en of
        Some e \<Rightarrow> (Some e, w1)
      | None \<Rightarrow> (None, w1\<lparr>calls := calls w1 @ map AppendInputAudio (frames en)\<rparr>))"

subsection \<open>Connecting\<close>

definition is_space :: "char \<Rightarrow> bool" where
  "is_space c = (c \<in> set [CHR 0x09, CHR 0x0A, CHR 0x0B, CHR 0x0C, CHR 0x0D, CHR '' ''])"

definition trim :: "string \<Rightarrow> string" where
  "trim s = rev (dropWhile is_space (rev (dropWhile is_space s)))"

definition seed :: "captured \<Rightarrow> content" where
  "seed cap =
     SeedInstruction (cap_persona cap)
       (if trim (cap_company cap) \<noteq> [] then Some (cap_company cap) else None)
       (trim (cap_customQuestion cap))"

definition default_feedback :: feedback_scores where
  "default_feedback =
     \<lparr>problemSolving = 2, communication = 2, codeQuality = 2, timeManagement = 2\<rparr>"

definition connectConversation_body :: "captured \<Rightarrow> env \<Rightarrow> world \<Rightarrow> error option \<times> world" where
  "connectConversation_body cap en w =
     (let w0 = w\<lparr>startTime := now en, isConnected := True, realtimeEvents := [],
                 items := getItems en, memoryKv := Map.empty, code := [],
                 feedback := default_feedback\<rparr>;
          w1 = do_call RecorderBegin w0 in
      case begin_throws en of
        Some e \<Rightarrow> (Some e, w1)
      | None \<Rightarrow>
         (let w2 = do_call PlayerConnect w1 in
          case player_connect_throws en of
            Some e \<Rightarrow> (Some e, w2)
          | None \<Rightarrow>
             (let w3 = do_call ClientConnect w2 in
              case client_connect_throws en of
                Some e \<Rightarrow> (Some e, w3)
              | None \<Rightarrow>
                 (let w4 = do_call (SendUserMessageContent (seed cap)) w3 in
                  if getTurnDetectionType en = Some ''server_vad''
                  then record_audio en w4
                  else (None, w4)))))"

definition connectConversation :: "env \<Rightarrow> world \<Rightarrow> error option \<times> world" where
  "connectConversation = connectConversation_body first_render"

subsection \<open>Disconnecting\<close>

text \<open>
  \<^verbatim>\<open>
  setIsConnected(false);
  client.disconnect();
  await wavRecorder.end();
  await wavStreamPlayer.interrupt();
  \<close>
\<close>

definition disconnectConversation :: "env \<Rightarrow> world \<Rightarrow> error option \<times> world" where
  "disconnectConversation en w =
     (let w1 = w\<lparr>isConnected := False\<rparr>;
          w2 = do_call ClientDisconnect w1;
          w3 = do_call RecorderEnd w2 in
      case end_throws en of
        Some e \<Rightarrow> (Some e, w3)
      | None \<Rightarrow> (None, do_call PlayerInterrupt w3))"

subsection \<open>Deleting an item\<close>

text \<open>
  \<^verbatim>\<open>
  const deleteConversationItem = useCallback(async (id: string) => {
    if (!isConnected) { return; }
    const client = clientRef.current;
    client.deleteItem(id);
  }, []);
  \<close>
\<close>

definition deleteConversationItem_body :: "captured \<Rightarrow> string \<Rightarrow> world \<Rightarrow> world" where
  "deleteConversationItem_body cap i w =
     (if \<not> cap_isConnected cap then w else do_call (DeleteItem i) w)"

definition deleteConversationItem :: "string \<Rightarrow> world \<Rightarrow> world" where
  "deleteConversationItem = deleteConversationItem_body first_render"

subsection \<open>Errors reported by the client\<close>

text \<open>\<^verbatim>\<open>client.on('error', (event: any) => console.error(event))\<close>\<close>

definition on_error :: "string \<Rightarrow> world \<Rightarrow> world" where
  "on_error ev w = do_call (ConsoleError ev) w"

subsection \<open>Interruption\<close>

text \<open>
  \<^verbatim>\<open>if (trackSampleOffset?.trackId) { const { trackId, offset } = trackSampleOffset; ... }\<close>:
  the branch is taken when the answer is an object whose \<^verbatim>\<open>trackId\<close> is truthy,
  that is, a string that is not empty.
\<close>

definition active_track :: "TrackSampleOffset option \<Rightarrow> (string \<times> nat) option" where
  "active_track r =
     (case r of
        None \<Rightarrow> None
      | Some t \<Rightarrow>
         (case trackId t of
            None \<Rightarrow> None
          | Some s \<Rightarrow> if s = [] then None else Some (s, offset t)))"

definition on_conversation_interrupted :: "env \<Rightarrow> world \<Rightarrow> error option \<times> world" where
  "on_conversation_interrupted en w =
     (let w1 = do_call PlayerInterrupt w in
      case active_track (interrupt_result en) of
        Some (tid, off) \<Rightarrow>
          (let w2 = do_call (CancelResponse tid off) w1 in
           (cancelResponse_throws en, w2))
      | None \<Rightarrow> (None, w1))"

subsection \<open>Push to talk\<close>

definition startRecording :: "env \<Rightarrow> world \<Rightarrow> error option \<times> world" where
  "startRecording en w =
     (let w1 = w\<lparr>isRecording := True\<rparr>;
          w2 = do_call PlayerInterrupt w1 in
      case active_track (interrupt_result en) of
        Some (tid, off) \<Rightarrow>
          (let w3 = do_call (CancelResponse tid off) w2 in
           case cancelResponse_throws en of
             Some e \<Rightarrow> (Some e, w3)
           | None \<Rightarrow> record_audio en w3)
      | None \<Rightarrow> record_audio en w2)"

definition stopRecording :: "env \<Rightarrow> world \<Rightarrow> error option \<times> world" where
  "stopRecording en w =
     (let w1 = w\<lparr>isRecording := False\<rparr>;
          w2 = do_call RecorderPause w1 in
      case pause_throws en of
        Some e \<Rightarrow> (Some e, w2)
      | None \<Rightarrow> (None, do_call CreateResponse w2))"

subsection \<open>Switching the turn mode\<close>

definition changeTurnEndType :: "string \<Rightarrow> env \<Rightarrow> world \<Rightarrow> error option \<times> world" where
  "changeTurnEndType v en w =
     (let (r1, w1) =
            (if v = ''none'' \<and> getStatus en = ''recording''
             then (pause_throws en, do_call RecorderPause w)
             else (None, w)) in
      case r1 of
        Some e \<Rightarrow> (Some e, w1)
      | None \<Rightarrow>
         (let w2 = do_call (UpdateSession (if v = ''none'' then NoTurnDetection else ServerVad)) w1;
              (r3, w3) =
                (if v = ''server_vad'' \<and> client_isConnected en
                 then record_audio en w2
                 else (None, w2)) in
          case r3 of
            Some e \<Rightarrow> (Some e, w3)
          | None \<Rightarrow> (None, w3\<lparr>canPushToTalk := (v = ''none'')\<rparr>)))"

subsection \<open>The tool \<^verbatim>\<open>set_memory\<close>\<close>




subsection \<open>Conversation updates (handler of \<^verbatim>\<open>conversation.updated\<close>)\<close>

text \<open>
  \<^verbatim>\<open>
  const items = client.conversation.getItems();
  if (delta?.audio) { wavStreamPlayer.add16BitPCM(delta.audio, item.id); }
  if (item.status === 'completed' && item.formatted.audio?.length) {
    const wavFile = await WavRecorder.decode(item.formatted.audio, 24000, 24000);
    item.formatted.file = wavFile;
  }
  setItems(items);
  \<close>
  The handler writes to the item object it was given; the model returns that object
  next to the world.
\<close>

definition completed_audio :: "ItemType \<Rightarrow> int list option" where
  \<comment> \<open>\<^verbatim>\<open>item.status === 'completed' && item.formatted.audio?.length\<close>\<close>
  "completed_audio item =
     (if status item = ''completed'' then
        (case formatted_audio item of
           None \<Rightarrow> None
         | Some a \<Rightarrow> if a = [] then None else Some a)
      else None)"

definition on_conversation_updated ::
  "env \<Rightarrow> ItemType \<Rightarrow> Delta option \<Rightarrow> world \<Rightarrow> error option \<times> ItemType \<times> world" where
  "on_conversation_updated en item delta w =
     (let its = getItems en;
          w1 = (case delta of
                  None \<Rightarrow> w
                | Some d \<Rightarrow>
                   (case delta_audio d of
                      None \<Rightarrow> w
                    | Some a \<Rightarrow> do_call (PlayerAdd16BitPCM a (item_id item)) w)) in
      case completed_audio item of
        Some a \<Rightarrow>
          (let w2 = do_call (WavDecode a 24000 24000) w1 in
           case decode_result en of
             Inl e \<Rightarrow> (Some e, item, w2)
           | Inr f \<Rightarrow> (None, item\<lparr>formatted_file := Some f\<rparr>, w2\<lparr>items := its\<rparr>))
      | None \<Rightarrow> (None, item, w1\<lparr>items := its\<rparr>))"

subsection \<open>The component before any interaction\<close>

text \<open>The initial values given to \<^verbatim>\<open>useState\<close>, and no call made yet.\<close>

definition initial_world :: world where
  "initial_world =
     \<lparr>startTime = [], isConnected = False, realtimeEvents = [], items = [],
      memoryKv = Map.empty, code = [], canPushToTalk = True, isRecording = False,
      feedback = default_feedback, calls = []\<rparr>"

text \<open>Collaborators that answer every call without throwing, with nothing playing.\<close>

definition quiet_env :: env where
  "quiet_env =
     \<lparr>now = ''2024-10-01T00:00:00.000Z'', getItems = [], getTurnDetectionType = None,
      getStatus = ''ended'', client_isConnected = False, begin_throws = None,
      player_connect_throws = None, client_connect_throws = None, record_throws = None,
      pause_throws = None, end_throws = None, interrupt_result = None, cancelResponse_throws = None,
      decode_result = Inr (WavFile ''blob:1''), frames = []\<rparr>"

subsection \<open>Observations on the call trace\<close>

definition new_calls :: "world \<Rightarrow> world \<Rightarrow> call list" where
  \<comment> \<open>the calls an operation added, given the world before and the world after\<close>
  "new_calls w w' = drop (length (calls w)) (calls w')"

fun is_decode :: "call \<Rightarrow> bool" where
  "is_decode (WavDecode a r1 r2) = True"
| "is_decode c = False"

definition decodes :: "call list \<Rightarrow> nat" where
  "decodes cs = length (filter is_decode cs)"

text \<open>
  The same notification dispatched \<open>n\<close> times: each dispatch runs the handler on the
  item object as the previous dispatch left it.
\<close>

fun redeliver :: "nat \<Rightarrow> env \<Rightarrow> ItemType \<Rightarrow> Delta option \<Rightarrow> world \<Rightarrow> ItemType \<times> world" where
  "redeliver 0 en item delta w = (item, w)"
| "redeliver (Suc n) en item delta w =
     (case on_conversation_updated en item delta w of
        (r, item', w') \<Rightarrow> redeliver n en item' delta w')"

fun cancel_args :: "call list \<Rightarrow> (string \<times> nat) list" where
  \<comment> \<open>the arguments of the \<^verbatim>\<open>cancelResponse\<close> calls of a trace, in order\<close>
  "cancel_args [] = []"
| "cancel_args (CancelResponse t n # cs) = (t, n) # cancel_args cs"
| "cancel_args (c # cs) = cancel_args cs"

fun is_append :: "call \<Rightarrow> bool" where
  "is_append (AppendInputAudio f) = True"
| "is_append c = False"

fun is_console :: "call \<Rightarrow> bool" where
  "is_console (ConsoleLog e) = True"
| "is_console (ConsoleError m) = True"
| "is_console c = False"

definition before_first_append :: "call list \<Rightarrow> call list" where
  "before_first_append cs = takeWhile (\<lambda>c. \<not> is_append c) cs"

definition from_first_append :: "call list \<Rightarrow> call list" where
  "from_first_append cs = dropWhile (\<lambda>c. \<not> is_append c) cs"

subsection \<open>The offset as the specification words it\<close>

text \<open>
  The specification has the coordinator translate the samples played into a duration,
  with the fixed sample rate, for \<^verbatim>\<open>cancelResponse(trackId, offsetMs)\<close>. The rate is
  the one the component gives to the recorder and the player.
\<close>

definition sampleRate :: nat where
  "sampleRate = 24000"

definition spec_offsetDuration :: "nat \<Rightarrow> nat" where
  "spec_offsetDuration samplesPlayed = samplesPlayed * 1000 div sampleRate"

subsection \<open>Concrete inputs\<close>

definition ev_server_ping :: RealtimeEvent where
  "ev_server_ping =
     \<lparr>time = ''t0'', source = Server, count = None, event = [(''type'', ''ping'')]\<rparr>"

definition ev_client_ping :: RealtimeEvent where
  "ev_client_ping =
     \<lparr>time = ''t1'', source = Client, count = None, event = [(''type'', ''ping'')]\<rparr>"

definition item_a1 :: ItemType where
  "item_a1 =
     \<lparr>item_id = ''a1'', status = ''completed'', formatted_audio = Some [1, 2, 3],
      formatted_file = None\<rparr>"

text \<open>A track is playing: one second of \<^verbatim>\<open>item_7\<close> has been played; two chunks are captured.\<close>

definition playing_env :: env where
  "playing_env =
     quiet_env\<lparr>interrupt_result := Some \<lparr>trackId = Some ''item_7'', offset = 24000\<rparr>,
               frames := [[5, 6], [7]]\<rparr>"

definition empty_track_env :: env where
  "empty_track_env =
     quiet_env\<lparr>interrupt_result := Some \<lparr>trackId = Some [], offset = 24000\<rparr>\<rparr>"

definition null_track_env :: env where
  "null_track_env =
     quiet_env\<lparr>interrupt_result := Some \<lparr>trackId = None, offset = 0\<rparr>\<rparr>"

definition failing_cancel_env :: env where
  "failing_cancel_env = playing_env\<lparr>cancelResponse_throws := Some (Thrown ''cannot cancel'')\<rparr>"

definition no_microphone_env :: env where
  "no_microphone_env = quiet_env\<lparr>begin_throws := Some (Thrown ''no microphone'')\<rparr>"

definition no_speaker_env :: env where
  "no_speaker_env = quiet_env\<lparr>player_connect_throws := Some (Thrown ''no audio output'')\<rparr>"

definition no_network_env :: env where
  "no_network_env = quiet_env\<lparr>client_connect_throws := Some (Thrown ''connection refused'')\<rparr>"

definition connected_world :: world where
  "connected_world = snd (connectConversation quiet_env initial_world)"

definition recording_env :: env where
  "recording_env = quiet_env\<lparr>getStatus := ''recording'', client_isConnected := True\<rparr>"

definition connected_env :: env where
  "connected_env =
     quiet_env\<lparr>getStatus := ''paused'', client_isConnected := True, frames := [[1], [2]]\<rparr>"

section \<open>Properties\<close>

subsection \<open>Event log\<close>

lemma aggregate_same:
  "log \<noteq> [] \<Longrightarrow> event_type (last log) = event_type ev \<Longrightarrow>
   aggregate log ev =
     Inr (butlast log @ [(last log)\<lparr>count := Some (count_or_0 (last log) + 1)\<rparr>])"
  by (simp add: aggregate_def)

lemma aggregate_differ:
  "(log = [] \<and> event_type ev \<noteq> None) \<or>
   (log \<noteq> [] \<and> event_type (last log) \<noteq> event_type ev) \<Longrightarrow>
   aggregate log ev = Inr (log @ [ev])"
  by (auto simp add: aggregate_def)

text \<open>
  C1, as the code has it. The handler compares the type of the new event with the type
  of the last entry and nothing else; the source is not looked at. When the types are
  equal the log keeps its length, every entry but the last is untouched, and the last
  entry's count becomes its previous count (0 when absent) plus one, so a fresh entry
  goes to 1, 2, 3, ... When the types differ, or the log is empty and the event has a
  type, the event is appended as received, and the log is one longer.
\<close>

theorem realtime_event_aggregates_by_type:
  "(realtimeEvents w \<noteq> [] \<and> event_type (last (realtimeEvents w)) = event_type ev \<longrightarrow>
      fst (on_realtime_event ev w) = None \<and>
      length (realtimeEvents (snd (on_realtime_event ev w))) = length (realtimeEvents w) \<and>
      butlast (realtimeEvents (snd (on_realtime_event ev w))) = butlast (realtimeEvents w) \<and>
      last (realtimeEvents (snd (on_realtime_event ev w))) =
        (last (realtimeEvents w))\<lparr>count := Some (count_or_0 (last (realtimeEvents w)) + 1)\<rparr>) \<and>
   ((realtimeEvents w = [] \<and> event_type ev \<noteq> None) \<or>
    (realtimeEvents w \<noteq> [] \<and> event_type (last (realtimeEvents w)) \<noteq> event_type ev) \<longrightarrow>
      fst (on_realtime_event ev w) = None \<and>
      realtimeEvents (snd (on_realtime_event ev w)) = realtimeEvents w @ [ev])"
proof (intro conjI impI)
  assume a: "realtimeEvents w \<noteq> [] \<and> event_type (last (realtimeEvents w)) = event_type ev"
  then have ag: "aggregate (realtimeEvents w) ev =
      Inr (butlast (realtimeEvents w) @
           [(last (realtimeEvents w))\<lparr>count := Some (count_or_0 (last (realtimeEvents w)) + 1)\<rparr>])"
    by (simp add: aggregate_same)
  show "fst (on_realtime_event ev w) = None"
    using ag by (simp add: on_realtime_event_def do_call_def)
  have r: "realtimeEvents (snd (on_realtime_event ev w)) = butlast (realtimeEvents w) @
           [(last (realtimeEvents w))\<lparr>count := Some (count_or_0 (last (realtimeEvents w)) + 1)\<rparr>]"
    using ag by (simp add: on_realtime_event_def do_call_def)
  show "length (realtimeEvents (snd (on_realtime_event ev w))) = length (realtimeEvents w)"
    using a by (simp add: r)
  show "butlast (realtimeEvents (snd (on_realtime_event ev w))) = butlast (realtimeEvents w)"
    by (simp add: r)
  show "last (realtimeEvents (snd (on_realtime_event ev w))) =
        (last (realtimeEvents w))\<lparr>count := Some (count_or_0 (last (realtimeEvents w)) + 1)\<rparr>"
    by (simp add: r)
next
  assume b: "(realtimeEvents w = [] \<and> event_type ev \<noteq> None) \<or>
    (realtimeEvents w \<noteq> [] \<and> event_type (last (realtimeEvents w)) \<noteq> event_type ev)"
  then have ag: "aggregate (realtimeEvents w) ev = Inr (realtimeEvents w @ [ev])"
    by (rule aggregate_differ)
  show "fst (on_realtime_event ev w) = None"
    using ag by (simp add: on_realtime_event_def do_call_def)
  show "realtimeEvents (snd (on_realtime_event ev w)) = realtimeEvents w @ [ev]"
    using ag by (simp add: on_realtime_event_def do_call_def)
qed

text \<open>
  The theorem at an empty log (the event is appended) and at a log whose last entry
  has the event's type (the entry's count becomes 1).
\<close>

theorem realtime_event_aggregates_by_type_witness:
  "realtimeEvents (snd (on_realtime_event ev_server_ping initial_world)) = [ev_server_ping] \<and>
   realtimeEvents
     (snd (on_realtime_event ev_server_ping
            (initial_world\<lparr>realtimeEvents := [ev_server_ping]\<rparr>)))
     = [ev_server_ping\<lparr>count := Some 1\<rparr>]"
  using realtime_event_aggregates_by_type [of initial_world ev_server_ping]
    realtime_event_aggregates_by_type
      [of "initial_world\<lparr>realtimeEvents := [ev_server_ping]\<rparr>" ev_server_ping]
  by (simp add: initial_world_def ev_server_ping_def event_type_def count_or_0_def
      on_realtime_event_def aggregate_def do_call_def)

text \<open>
  C1 as stated fails: an event from the client that follows an entry of the same type
  from the server is not appended (the sources differ, the log keeps its length 1),
  and the count of the entry that has now been seen twice is 1, not 2.
\<close>

theorem realtime_event_source_counterexample:
  "source ev_server_ping \<noteq> source ev_client_ping \<and>
   realtimeEvents
     (snd (on_realtime_event ev_client_ping
            (initial_world\<lparr>realtimeEvents := [ev_server_ping]\<rparr>)))
     = [ev_server_ping\<lparr>count := Some 1\<rparr>]"
  by (simp add: initial_world_def ev_server_ping_def ev_client_ping_def event_type_def
      count_or_0_def on_realtime_event_def aggregate_def do_call_def)

subsection \<open>Decoding of completed items\<close>

lemma decodes_append: "decodes (xs @ ys) = decodes xs + decodes ys"
  by (simp add: decodes_def)

lemma updated_completed_audio:
  "on_conversation_updated en item delta w = (r, item', w') \<Longrightarrow>
   completed_audio item' = completed_audio item"
  by (auto simp: on_conversation_updated_def completed_audio_def Let_def
      split: option.splits sum.splits if_splits)

lemma updated_decodes:
  "completed_audio item = Some a \<Longrightarrow>
   on_conversation_updated en item delta w = (r, item', w') \<Longrightarrow>
   decodes (calls w') = Suc (decodes (calls w))"
  by (auto simp: on_conversation_updated_def Let_def do_call_def decodes_append decodes_def
      split: option.splits sum.splits)

text \<open>
  C2, as the code has it. The handler has no record of the items it has decoded: every
  notification for a completed item with a non-empty audio buffer calls the decoder
  once, so \<open>n\<close> notifications for the same item call it \<open>n\<close> times.
\<close>

theorem completed_decodes_every_time:
  "completed_audio item = Some a \<Longrightarrow>
   decodes (calls (snd (redeliver n en item delta w))) = decodes (calls w) + n"
proof (induction n arbitrary: item w)
  case 0
  then show ?case by simp
next
  case (Suc n)
  obtain r item' w' where s: "on_conversation_updated en item delta w = (r, item', w')"
    by (metis prod_cases3)
  have c: "completed_audio item' = Some a"
    using updated_completed_audio [OF s] Suc.prems by simp
  have d: "decodes (calls w') = Suc (decodes (calls w))"
    using updated_decodes [OF Suc.prems s] .
  show ?case
    using Suc.IH [OF c, of w'] s d by simp
qed

theorem completed_decodes_every_time_witness:
  "completed_audio item_a1 = Some [1, 2, 3] \<and>
   decodes (calls (snd (redeliver 3 quiet_env item_a1 None initial_world))) = 3"
  using completed_decodes_every_time [of item_a1 "[1, 2, 3]" 3 quiet_env None initial_world]
  by (simp add: completed_audio_def item_a1_def initial_world_def decodes_def)

text \<open>
  C2 as stated fails: the completed notification for item a1, delivered twice, makes
  two decode calls.
\<close>

theorem completed_twice_counterexample:
  "decodes (calls (snd (redeliver 2 quiet_env item_a1 None initial_world))) = 2"
  by (simp add: numeral_2_eq_2 on_conversation_updated_def completed_audio_def item_a1_def
      quiet_env_def initial_world_def do_call_def decodes_def Let_def)

subsection \<open>The calls of the interrupting operations\<close>

lemma new_calls_append [simp]: "calls w' = calls w @ cs \<Longrightarrow> new_calls w w' = cs"
  by (simp add: new_calls_def)

lemma cancel_args_frames [simp]: "cancel_args (map AppendInputAudio fs) = []"
  by (induction fs) simp_all

lemma before_first_append_frames:
  "list_all (\<lambda>c. \<not> is_append c) pre \<Longrightarrow>
   before_first_append (pre @ map AppendInputAudio fs) = pre"
proof (induction pre)
  case Nil
  show ?case by (cases fs) (simp_all add: before_first_append_def)
next
  case (Cons c pre)
  then show ?case by (simp add: before_first_append_def)
qed

lemma from_first_append_frames:
  "list_all (\<lambda>c. \<not> is_append c) pre \<Longrightarrow>
   from_first_append (pre @ map AppendInputAudio fs) = map AppendInputAudio fs"
proof (induction pre)
  case Nil
  show ?case by (cases fs) (simp_all add: from_first_append_def)
next
  case (Cons c pre)
  then show ?case by (simp add: from_first_append_def)
qed

lemma record_audio_calls:
  "calls (snd (record_audio en w)) =
     calls w @ RecorderRecord #
       (if record_throws en = None then map AppendInputAudio (frames en) else [])"
  by (simp add: record_audio_def do_call_def Let_def split: option.splits)

lemma startRecording_calls:
  "calls (snd (startRecording en w)) = calls w @
     (case active_track (interrupt_result en) of
        None \<Rightarrow> PlayerInterrupt # RecorderRecord #
                 (if record_throws en = None then map AppendInputAudio (frames en) else [])
      | Some (t, n) \<Rightarrow>
          PlayerInterrupt # CancelResponse t n #
            (if cancelResponse_throws en = None
             then RecorderRecord #
                  (if record_throws en = None then map AppendInputAudio (frames en) else [])
             else []))"
  by (simp add: startRecording_def record_audio_calls do_call_def Let_def split: option.splits)

lemma interrupted_calls:
  "calls (snd (on_conversation_interrupted en w)) = calls w @
     (case active_track (interrupt_result en) of
        None \<Rightarrow> [PlayerInterrupt]
      | Some (t, n) \<Rightarrow> [PlayerInterrupt, CancelResponse t n])"
  by (simp add: on_conversation_interrupted_def do_call_def Let_def split: option.splits)

lemma active_track_pair:
  "t \<noteq> [] \<Longrightarrow> active_track (Some \<lparr>trackId = Some t, offset = n\<rparr>) = Some (t, n)"
  by (simp add: active_track_def)

lemma startRecording_split:
  "\<exists>pre fs. new_calls w (snd (startRecording en w)) = pre @ map AppendInputAudio fs \<and>
     list_all (\<lambda>c. \<not> is_append c) pre \<and> PlayerInterrupt \<in> set pre \<and>
     (\<forall>t n. active_track (interrupt_result en) = Some (t, n) \<longrightarrow> CancelResponse t n \<in> set pre)"
proof (cases "active_track (interrupt_result en)")
  case None
  have "new_calls w (snd (startRecording en w)) =
      [PlayerInterrupt, RecorderRecord] @
      map AppendInputAudio (if record_throws en = None then frames en else [])"
    using startRecording_calls [of en w] None by simp
  then show ?thesis using None
    by (intro exI [of _ "[PlayerInterrupt, RecorderRecord]"]
        exI [of _ "if record_throws en = None then frames en else []"]) simp
next
  case (Some p)
  obtain t n where p: "p = (t, n)" by (cases p)
  have "new_calls w (snd (startRecording en w)) =
      (PlayerInterrupt # CancelResponse t n #
        (if cancelResponse_throws en = None then [RecorderRecord] else [])) @
      map AppendInputAudio
        (if cancelResponse_throws en = None \<and> record_throws en = None then frames en else [])"
    using startRecording_calls [of en w] Some p by simp
  then show ?thesis using Some p
    by (intro exI [of _ "PlayerInterrupt # CancelResponse t n #
        (if cancelResponse_throws en = None then [RecorderRecord] else [])"]
        exI [of _ "if cancelResponse_throws en = None \<and> record_throws en = None
                   then frames en else []"]) simp
qed

subsection \<open>Cancelling the interrupted response\<close>

lemma active_track_no_id:
  "trackId r = None \<or> trackId r = Some [] \<Longrightarrow> active_track (Some r) = None"
  by (auto simp add: active_track_def)

text \<open>
  C3, as the code has it. When \<^verbatim>\<open>interrupt()\<close> answers a track with a non-empty id \<open>t\<close>
  and \<open>n\<close> samples played, the handler of \<^verbatim>\<open>conversation.interrupted\<close> and
  \<^verbatim>\<open>startRecording\<close> each make exactly one \<^verbatim>\<open>cancelResponse\<close> call, with the
  arguments \<open>t\<close> and \<open>n\<close>: the sample count is passed on as it is, the component does
  not turn it into a duration. When it answers an object whose track id is null or the
  empty string, neither of the two makes a \<^verbatim>\<open>cancelResponse\<close> call.
\<close>

theorem interrupt_cancels_at_sample_offset:
  "(interrupt_result en = Some \<lparr>trackId = Some t, offset = n\<rparr> \<and> t \<noteq> [] \<longrightarrow>
     cancel_args (new_calls w (snd (on_conversation_interrupted en w))) = [(t, n)] \<and>
     cancel_args (new_calls w (snd (startRecording en w))) = [(t, n)]) \<and>
   (interrupt_result en = Some r \<and> (trackId r = None \<or> trackId r = Some []) \<longrightarrow>
     cancel_args (new_calls w (snd (on_conversation_interrupted en w))) = [] \<and>
     cancel_args (new_calls w (snd (startRecording en w))) = [])"
proof (intro conjI impI)
  assume a: "interrupt_result en = Some \<lparr>trackId = Some t, offset = n\<rparr> \<and> t \<noteq> []"
  then have at: "active_track (interrupt_result en) = Some (t, n)"
    by (simp add: active_track_pair)
  show "cancel_args (new_calls w (snd (on_conversation_interrupted en w))) = [(t, n)]"
    using interrupted_calls [of en w] at by simp
  show "cancel_args (new_calls w (snd (startRecording en w))) = [(t, n)]"
    using startRecording_calls [of en w] at by simp
next
  assume b: "interrupt_result en = Some r \<and> (trackId r = None \<or> trackId r = Some [])"
  then have at: "active_track (interrupt_result en) = None"
    by (simp add: active_track_no_id)
  show "cancel_args (new_calls w (snd (on_conversation_interrupted en w))) = []"
    using interrupted_calls [of en w] at by simp
  show "cancel_args (new_calls w (snd (startRecording en w))) = []"
    using startRecording_calls [of en w] at by simp
qed

text \<open>
  The theorem with one second of \<^verbatim>\<open>item_7\<close> played, with an empty track id, and
  with a null track id.
\<close>

theorem interrupt_cancels_at_sample_offset_witness:
  "interrupt_result playing_env = Some \<lparr>trackId = Some ''item_7'', offset = 24000\<rparr> \<and>
   cancel_args (new_calls initial_world (snd (on_conversation_interrupted playing_env initial_world)))
     = [(''item_7'', 24000)] \<and>
   cancel_args (new_calls initial_world (snd (startRecording playing_env initial_world)))
     = [(''item_7'', 24000)] \<and>
   interrupt_result empty_track_env = Some \<lparr>trackId = Some [], offset = 24000\<rparr> \<and>
   cancel_args (new_calls initial_world (snd (on_conversation_interrupted empty_track_env initial_world)))
     = [] \<and>
   cancel_args (new_calls initial_world (snd (startRecording empty_track_env initial_world)))
     = [] \<and>
   interrupt_result null_track_env = Some \<lparr>trackId = None, offset = 0\<rparr> \<and>
   cancel_args (new_calls initial_world (snd (on_conversation_interrupted null_track_env initial_world)))
     = [] \<and>
   cancel_args (new_calls initial_world (snd (startRecording null_track_env initial_world)))
     = []"
  using interrupt_cancels_at_sample_offset
      [of playing_env "''item_7''" 24000 initial_world "\<lparr>trackId = None, offset = 0\<rparr>"]
    interrupt_cancels_at_sample_offset
      [of empty_track_env "''item_7''" 24000 initial_world "\<lparr>trackId = Some [], offset = 24000\<rparr>"]
    interrupt_cancels_at_sample_offset
      [of null_track_env "''item_7''" 24000 initial_world "\<lparr>trackId = None, offset = 0\<rparr>"]
  by (simp add: playing_env_def empty_track_env_def null_track_env_def quiet_env_def)

text \<open>
  C3 as stated fails. With 24000 samples of \<^verbatim>\<open>item_7\<close> played, the one cancel call carries
  24000, not the duration of 24000 samples at 24000 Hz (1000 ms); and an answer whose
  track id is the empty string or null is followed by no cancel call at all.
\<close>

theorem cancel_offset_untranslated_counterexample:
  "cancel_args (new_calls initial_world (snd (on_conversation_interrupted playing_env initial_world)))
     = [(''item_7'', 24000)] \<and>
   cancel_args (new_calls initial_world (snd (on_conversation_interrupted playing_env initial_world)))
     \<noteq> [(''item_7'', spec_offsetDuration 24000)] \<and>
   cancel_args (new_calls initial_world (snd (on_conversation_interrupted empty_track_env initial_world)))
     = [] \<and>
   cancel_args (new_calls initial_world (snd (on_conversation_interrupted null_track_env initial_world)))
     = []"
  by (simp add: interrupted_calls active_track_def playing_env_def empty_track_env_def
      null_track_env_def quiet_env_def spec_offsetDuration_def sampleRate_def)

subsection \<open>Interruption before capture\<close>

text \<open>
  C4. Among the calls of one run of \<^verbatim>\<open>startRecording\<close>, the interruption of the
  player and, when a track was playing, the cancel request for it come before the
  first frame forwarded to the client; from the first forwarded frame on, the run
  only forwards frames.
\<close>

theorem startRecording_interrupts_before_frames:
  "PlayerInterrupt \<in> set (before_first_append (new_calls w (snd (startRecording en w)))) \<and>
   (\<forall>t n. active_track (interrupt_result en) = Some (t, n) \<longrightarrow>
      CancelResponse t n \<in> set (before_first_append (new_calls w (snd (startRecording en w))))) \<and>
   list_all is_append (from_first_append (new_calls w (snd (startRecording en w))))"
proof -
  obtain pre fs where s: "new_calls w (snd (startRecording en w)) = pre @ map AppendInputAudio fs"
    and n: "list_all (\<lambda>c. \<not> is_append c) pre" and i: "PlayerInterrupt \<in> set pre"
    and c: "\<forall>t n. active_track (interrupt_result en) = Some (t, n) \<longrightarrow> CancelResponse t n \<in> set pre"
    using startRecording_split by blast
  have b: "before_first_append (new_calls w (snd (startRecording en w))) = pre"
    using n by (simp add: s before_first_append_frames)
  have f: "from_first_append (new_calls w (snd (startRecording en w))) = map AppendInputAudio fs"
    using n by (simp add: s from_first_append_frames)
  show ?thesis
    using i c by (simp add: b f list_all_iff)
qed

theorem startRecording_interrupts_before_frames_witness:
  "active_track (interrupt_result playing_env) = Some (''item_7'', 24000) \<and>
   new_calls initial_world (snd (startRecording playing_env initial_world)) =
     [PlayerInterrupt, CancelResponse ''item_7'' 24000, RecorderRecord,
      AppendInputAudio [5, 6], AppendInputAudio [7]] \<and>
   before_first_append (new_calls initial_world (snd (startRecording playing_env initial_world))) =
     [PlayerInterrupt, CancelResponse ''item_7'' 24000, RecorderRecord]"
  using startRecording_interrupts_before_frames [of initial_world playing_env]
  by (simp add: startRecording_calls active_track_def playing_env_def quiet_env_def
      before_first_append_def)

subsection \<open>Nothing playing\<close>

text \<open>
  C9. When \<^verbatim>\<open>interrupt()\<close> answers that no track is playing (undefined, or an object
  without a track id), the handler of \<^verbatim>\<open>conversation.interrupted\<close> ends without
  an error after that one call, and \<^verbatim>\<open>startRecording\<close> goes straight on to
  \<^verbatim>\<open>record\<close>; neither makes a \<^verbatim>\<open>cancelResponse\<close> call, and the only error
  \<^verbatim>\<open>startRecording\<close> can then end with is one thrown by \<^verbatim>\<open>record\<close>.
\<close>

theorem no_track_no_cancel:
  "active_track (interrupt_result en) = None \<longrightarrow>
     on_conversation_interrupted en w = (None, w\<lparr>calls := calls w @ [PlayerInterrupt]\<rparr>) \<and>
     cancel_args (new_calls w (snd (on_conversation_interrupted en w))) = [] \<and>
     cancel_args (new_calls w (snd (startRecording en w))) = [] \<and>
     take 2 (new_calls w (snd (startRecording en w))) = [PlayerInterrupt, RecorderRecord] \<and>
     fst (startRecording en w) = record_throws en"
proof
  assume a: "active_track (interrupt_result en) = None"
  have 1: "on_conversation_interrupted en w = (None, w\<lparr>calls := calls w @ [PlayerInterrupt]\<rparr>)"
    using a by (simp add: on_conversation_interrupted_def do_call_def)
  have 2: "cancel_args (new_calls w (snd (on_conversation_interrupted en w))) = []"
    by (simp add: 1 new_calls_def)
  have 3: "new_calls w (snd (startRecording en w)) = PlayerInterrupt # RecorderRecord #
                 (if record_throws en = None then map AppendInputAudio (frames en) else [])"
    using startRecording_calls [of en w] a by simp
  have 4: "fst (startRecording en w) = record_throws en"
    using a by (simp add: startRecording_def record_audio_def Let_def split: option.splits)
  show "on_conversation_interrupted en w = (None, w\<lparr>calls := calls w @ [PlayerInterrupt]\<rparr>) \<and>
     cancel_args (new_calls w (snd (on_conversation_interrupted en w))) = [] \<and>
     cancel_args (new_calls w (snd (startRecording en w))) = [] \<and>
     take 2 (new_calls w (snd (startRecording en w))) = [PlayerInterrupt, RecorderRecord] \<and>
     fst (startRecording en w) = record_throws en"
    using 1 2 4 by (simp add: 3)
qed

theorem no_track_no_cancel_witness:
  "interrupt_result quiet_env = None \<and>
   active_track (interrupt_result quiet_env) = None \<and>
   on_conversation_interrupted quiet_env initial_world =
     (None, initial_world\<lparr>calls := [PlayerInterrupt]\<rparr>) \<and>
   new_calls initial_world (snd (startRecording quiet_env initial_world)) =
     [PlayerInterrupt, RecorderRecord]"
  using no_track_no_cancel [of quiet_env initial_world]
  by (simp add: quiet_env_def active_track_def initial_world_def startRecording_calls)

subsection \<open>A cancel request that fails\<close>

text \<open>
  C6, as the code has it. The handler of \<^verbatim>\<open>conversation.interrupted\<close> awaits
  \<^verbatim>\<open>cancelResponse\<close> outside any \<^verbatim>\<open>try\<close>: when the request throws, the handler
  ends with that exception (its promise rejects), having made no call on the console.
  The player has been interrupted before the request, and no state variable of the
  component has changed.
\<close>

theorem interrupted_cancel_failure_rejects:
  "active_track (interrupt_result en) = Some (t, n) \<and> cancelResponse_throws en = Some e \<longrightarrow>
     on_conversation_interrupted en w =
       (Some e, w\<lparr>calls := calls w @ [PlayerInterrupt, CancelResponse t n]\<rparr>) \<and>
     list_all (\<lambda>c. \<not> is_console c) (new_calls w (snd (on_conversation_interrupted en w)))"
  by (simp add: on_conversation_interrupted_def do_call_def Let_def new_calls_def)

theorem interrupted_cancel_failure_rejects_witness:
  "active_track (interrupt_result failing_cancel_env) = Some (''item_7'', 24000) \<and>
   cancelResponse_throws failing_cancel_env = Some (Thrown ''cannot cancel'') \<and>
   fst (on_conversation_interrupted failing_cancel_env initial_world) =
     Some (Thrown ''cannot cancel'')"
  using interrupted_cancel_failure_rejects
    [of failing_cancel_env "''item_7''" 24000 "Thrown ''cannot cancel''" initial_world]
  by (simp add: failing_cancel_env_def playing_env_def quiet_env_def active_track_def)

text \<open>
  C6 as stated fails: with a track playing and a cancel request that throws, the
  handler ends with the exception, and its calls are the interruption and the request,
  with no log entry.
\<close>

theorem interrupted_cancel_failure_counterexample:
  "on_conversation_interrupted failing_cancel_env initial_world =
     (Some (Thrown ''cannot cancel''),
      initial_world\<lparr>calls := [PlayerInterrupt, CancelResponse ''item_7'' 24000]\<rparr>)"
  by (simp add: on_conversation_interrupted_def failing_cancel_env_def playing_env_def
      quiet_env_def active_track_def do_call_def initial_world_def)

subsection \<open>A connect that fails\<close>

lemma connect_state:
  "isConnected (snd (connectConversation en w)) \<and>
   realtimeEvents (snd (connectConversation en w)) = [] \<and>
   items (snd (connectConversation en w)) = getItems en \<and>
   memoryKv (snd (connectConversation en w)) = Map.empty \<and>
   code (snd (connectConversation en w)) = []"
  by (simp add: connectConversation_def connectConversation_body_def record_audio_def
      do_call_def Let_def split: option.splits)

text \<open>
  C5, as the code has it. \<^verbatim>\<open>connectConversation\<close> awaits the three opens in turn,
  outside any \<^verbatim>\<open>try\<close>. When one of them throws, the attempt ends with that exception;
  the calls made are the opens up to the one that threw, so nothing opened before is
  closed and no later step runs. The state written before the first open stays:
  \<open>isConnected\<close> is true, the log, the memory and the editor buffer are empty, and
  \<open>items\<close> is the client's list.
\<close>

theorem connect_failure_leaves_resources_open:
  "(begin_throws en = Some e \<longrightarrow>
      fst (connectConversation en w) = Some e \<and>
      new_calls w (snd (connectConversation en w)) = [RecorderBegin]) \<and>
   (begin_throws en = None \<and> player_connect_throws en = Some e \<longrightarrow>
      fst (connectConversation en w) = Some e \<and>
      new_calls w (snd (connectConversation en w)) = [RecorderBegin, PlayerConnect]) \<and>
   (begin_throws en = None \<and> player_connect_throws en = None \<and>
    client_connect_throws en = Some e \<longrightarrow>
      fst (connectConversation en w) = Some e \<and>
      new_calls w (snd (connectConversation en w)) =
        [RecorderBegin, PlayerConnect, ClientConnect]) \<and>
   isConnected (snd (connectConversation en w)) \<and>
   realtimeEvents (snd (connectConversation en w)) = [] \<and>
   items (snd (connectConversation en w)) = getItems en \<and>
   memoryKv (snd (connectConversation en w)) = Map.empty \<and>
   code (snd (connectConversation en w)) = []"
proof -
  have 1: "begin_throws en = Some e \<longrightarrow>
      fst (connectConversation en w) = Some e \<and>
      new_calls w (snd (connectConversation en w)) = [RecorderBegin]"
    by (simp add: connectConversation_def connectConversation_body_def do_call_def new_calls_def)
  have 2: "begin_throws en = None \<and> player_connect_throws en = Some e \<longrightarrow>
      fst (connectConversation en w) = Some e \<and>
      new_calls w (snd (connectConversation en w)) = [RecorderBegin, PlayerConnect]"
    by (simp add: connectConversation_def connectConversation_body_def do_call_def new_calls_def)
  have 3: "begin_throws en = None \<and> player_connect_throws en = None \<and>
    client_connect_throws en = Some e \<longrightarrow>
      fst (connectConversation en w) = Some e \<and>
      new_calls w (snd (connectConversation en w)) =
        [RecorderBegin, PlayerConnect, ClientConnect]"
    by (simp add: connectConversation_def connectConversation_body_def do_call_def new_calls_def)
  show ?thesis using 1 2 3 connect_state [of en w] by blast
qed

theorem connect_failure_leaves_resources_open_witness:
  "begin_throws no_microphone_env = Some (Thrown ''no microphone'') \<and>
   new_calls initial_world (snd (connectConversation no_microphone_env initial_world)) =
     [RecorderBegin] \<and>
   player_connect_throws no_speaker_env = Some (Thrown ''no audio output'') \<and>
   fst (connectConversation no_speaker_env initial_world) = Some (Thrown ''no audio output'') \<and>
   new_calls initial_world (snd (connectConversation no_speaker_env initial_world)) =
     [RecorderBegin, PlayerConnect] \<and>
   client_connect_throws no_network_env = Some (Thrown ''connection refused'') \<and>
   new_calls initial_world (snd (connectConversation no_network_env initial_world)) =
     [RecorderBegin, PlayerConnect, ClientConnect]"
  using connect_failure_leaves_resources_open
      [of no_microphone_env "Thrown ''no microphone''" initial_world]
    connect_failure_leaves_resources_open
      [of no_speaker_env "Thrown ''no audio output''" initial_world]
    connect_failure_leaves_resources_open
      [of no_network_env "Thrown ''connection refused''" initial_world]
  by (simp add: no_microphone_env_def no_speaker_env_def no_network_env_def quiet_env_def)

text \<open>
  C5 as stated fails: when the recorder opens and the player does not, the attempt ends
  with the player's exception, the recorder is not closed (the calls are the two opens
  and nothing else) and \<open>isConnected\<close> stays true.
\<close>

theorem connect_no_unwind_counterexample:
  "fst (connectConversation no_speaker_env initial_world) = Some (Thrown ''no audio output'') \<and>
   calls (snd (connectConversation no_speaker_env initial_world)) =
     [RecorderBegin, PlayerConnect] \<and>
   isConnected (snd (connectConversation no_speaker_env initial_world)) = True"
  by (simp add: connectConversation_def connectConversation_body_def do_call_def
      no_speaker_env_def quiet_env_def initial_world_def)

subsection \<open>Deleting an item\<close>

lemma deleteConversationItem_body_connected:
  "cap_isConnected cap \<Longrightarrow>
   deleteConversationItem_body cap i w = w\<lparr>calls := calls w @ [DeleteItem i]\<rparr>"
  by (simp add: deleteConversationItem_body_def do_call_def)

lemma deleteConversationItem_noop: "deleteConversationItem i w = w"
  by (simp add: deleteConversationItem_def deleteConversationItem_body_def first_render_def)

text \<open>
  C7, at a connected session. After a connect that succeeded, \<open>isConnected\<close> is true,
  yet \<^verbatim>\<open>deleteConversationItem\<close> leaves the world as it is: the guard reads the
  \<open>isConnected\<close> of the first render, which is false, and the removal is never
  forwarded to the client.
\<close>

theorem deleteConversationItem_connected_not_forwarded:
  "fst (connectConversation quiet_env initial_world) = None \<and>
   isConnected connected_world = True \<and>
   deleteConversationItem ''item_1'' connected_world = connected_world \<and>
   DeleteItem ''item_1'' \<notin> set (calls (deleteConversationItem ''item_1'' connected_world))"
  by (simp add: deleteConversationItem_noop connected_world_def connectConversation_def
      connectConversation_body_def do_call_def quiet_env_def initial_world_def)

subsection \<open>Switching the turn mode\<close>

text \<open>
  C8. Switching to manual mode (\<^verbatim>\<open>none\<close>) while the recorder's status is
  \<^verbatim>\<open>recording\<close> pauses the recorder once, first, and then updates the session (when
  the pause did not throw). Switching to automatic mode (\<^verbatim>\<open>server_vad\<close>) while the
  client is connected updates the session and then starts recording, forwarding the
  frames. In every other case the session update is the only call. No switch requests
  a response.
\<close>

theorem changeTurnEndType_pause_and_record:
  "(v = ''none'' \<and> getStatus en = ''recording'' \<longrightarrow>
      new_calls w (snd (changeTurnEndType v en w)) =
        RecorderPause # (if pause_throws en = None then [UpdateSession NoTurnDetection] else [])) \<and>
   (v = ''server_vad'' \<and> client_isConnected en \<longrightarrow>
      new_calls w (snd (changeTurnEndType v en w)) =
        [UpdateSession ServerVad, RecorderRecord] @
        (if record_throws en = None then map AppendInputAudio (frames en) else [])) \<and>
   (\<not> (v = ''none'' \<and> getStatus en = ''recording'') \<and>
    \<not> (v = ''server_vad'' \<and> client_isConnected en) \<longrightarrow>
      new_calls w (snd (changeTurnEndType v en w)) =
        [UpdateSession (if v = ''none'' then NoTurnDetection else ServerVad)]) \<and>
   CreateResponse \<notin> set (new_calls w (snd (changeTurnEndType v en w)))"
  by (auto simp add: changeTurnEndType_def record_audio_def do_call_def new_calls_def Let_def
      split: option.splits)

theorem changeTurnEndType_pause_and_record_witness:
  "getStatus recording_env = ''recording'' \<and>
   new_calls initial_world (snd (changeTurnEndType ''none'' recording_env initial_world)) =
     [RecorderPause, UpdateSession NoTurnDetection] \<and>
   client_isConnected connected_env \<and>
   new_calls initial_world (snd (changeTurnEndType ''server_vad'' connected_env initial_world)) =
     [UpdateSession ServerVad, RecorderRecord, AppendInputAudio [1], AppendInputAudio [2]] \<and>
   getStatus connected_env \<noteq> ''recording'' \<and>
   new_calls initial_world (snd (changeTurnEndType ''none'' connected_env initial_world)) =
     [UpdateSession NoTurnDetection]"
  using changeTurnEndType_pause_and_record [of "''none''" recording_env initial_world]
    changeTurnEndType_pause_and_record [of "''server_vad''" connected_env initial_world]
    changeTurnEndType_pause_and_record [of "''none''" connected_env initial_world]
  by (simp add: recording_env_def connected_env_def quiet_env_def)

subsection \<open>The memory map\<close>






end
